theory Spec2Isabelle
  imports Main
begin

section \<open>The health monitor of \<open>main.ts\<close>\<close>

text \<open>
  \<open>main.ts\<close> probes a fixed table of HTTP endpoints, keeps the last batch of results in a
  module-level variable and serves them over HTTP. The embedding follows the source
  function by function. What the source takes from its surroundings (the network, the
  clock, the order in which concurrent probes settle) is an explicit argument, so every
  definition computes.
\<close>

subsection \<open>Promises\<close>

text \<open>
  The final state of a JavaScript promise: it is fulfilled with a value, rejected with an
  error, or it never settles. An \<open>async\<close> function is modelled by the final state of the
  promise it returns; \<open>await p\<close> followed by the rest of the function body is \<open>await p k\<close>,
  and \<open>try { ... } catch (error) { ... }\<close> around awaited code is \<open>try_catch\<close>.
\<close>

text \<open>
  What \<open>fetch\<close>, \<open>response.json()\<close> and \<open>response.text()\<close> reject with is always an \<open>Error\<close>
  object; the source reads its \<open>message\<close> only.
\<close>

datatype js_error = JsError (message: string)

datatype 'a promise = Pending | Fulfilled 'a | Rejected js_error

fun await :: "'a promise \<Rightarrow> ('a \<Rightarrow> 'b promise) \<Rightarrow> 'b promise" where
  "await Pending k = Pending"
| "await (Rejected e) k = Rejected e"
| "await (Fulfilled v) k = k v"

fun try_catch :: "'a promise \<Rightarrow> (js_error \<Rightarrow> 'a promise) \<Rightarrow> 'a promise" where
  "try_catch Pending h = Pending"
| "try_catch (Rejected e) h = h e"
| "try_catch (Fulfilled v) h = Fulfilled v"

fun then_map :: "('a \<Rightarrow> 'b) \<Rightarrow> 'a promise \<Rightarrow> 'b promise" where
  "then_map f Pending = Pending"
| "then_map f (Rejected e) = Rejected e"
| "then_map f (Fulfilled v) = Fulfilled (f v)"

text \<open>
  \<open>Promise.all\<close>, as ECMAScript defines it: every input promise that fulfils writes its
  value into the slot of its own index, the result is fulfilled with the array of values
  once every slot is written, and the first input that rejects rejects the result.
  \<open>order\<close> lists the indices of the inputs in the order in which the event loop sees them
  settle; an input that never settles causes no event, and an index that names no input
  is no event either.
\<close>

fun resolve_elements :: "'a promise list \<Rightarrow> nat list \<Rightarrow> 'a option list \<Rightarrow> 'a list promise" where
  "resolve_elements ps [] values =
     (case those values of None \<Rightarrow> Pending | Some vs \<Rightarrow> Fulfilled vs)"
| "resolve_elements ps (i # order) values =
     (if i < length ps then
        (case ps ! i of
           Pending \<Rightarrow> resolve_elements ps order values
         | Rejected e \<Rightarrow> Rejected e
         | Fulfilled v \<Rightarrow> resolve_elements ps order (values[i := Some v]))
      else resolve_elements ps order values)"

definition Promise_all :: "'a promise list \<Rightarrow> nat list \<Rightarrow> 'a list promise" where
  "Promise_all ps order = resolve_elements ps order (replicate (length ps) None)"

subsection \<open>Strings\<close>

text \<open>\<open>String.prototype.includes\<close>: the pattern occurs as a contiguous substring.\<close>

fun str_includes :: "string \<Rightarrow> string \<Rightarrow> bool" where
  "str_includes [] pat = (pat = [])"
| "str_includes (c # cs) pat = (take (length pat) (c # cs) = pat \<or> str_includes cs pat)"

text \<open>
  Decimal digits. \<open>parseInt\<close> is only ever applied to what \<open>\d+\<close> matched, a non-empty
  string of ASCII digits, where it reads the decimal number. (Beyond \<open>2^53\<close> JavaScript
  rounds the number; it stays far above any array length, so the comparison with
  \<open>ENDPOINTS.length\<close> is the same.)
\<close>

definition is_digit :: "char \<Rightarrow> bool" where
  "is_digit c = (c \<in> set ''0123456789'')"

definition digit_val :: "char \<Rightarrow> nat" where
  "digit_val c = length (takeWhile (\<lambda>d. d \<noteq> c) ''0123456789'')"

definition parseInt :: "string \<Rightarrow> nat" where
  "parseInt ds = foldl (\<lambda>n c. 10 * n + digit_val c) 0 ds"

text \<open>The template literal \<open>`${latency}`\<close> of an integer: its decimal numeral.\<close>

fun show_nat :: "nat \<Rightarrow> string" where
  "show_nat n =
     (if n < 10 then [''0123456789'' ! n]
      else show_nat (n div 10) @ [''0123456789'' ! (n mod 10)])"

definition show_int :: "int \<Rightarrow> string" where
  "show_int i = (if i < 0 then ''-'' @ show_nat (nat (- i)) else show_nat (nat i))"

subsection \<open>Configuration\<close>

record endpoint =
  name :: string
  url :: string

definition ENDPOINTS :: "endpoint list" where
  "ENDPOINTS =
     [\<lparr>name = ''Gemini Balance'', url = ''https://luckiness-me-gemini-balance.hf.space/health''\<rparr>,
      \<lparr>name = ''Demo API'', url = ''https://luckiness-test-df-demo.hf.space/health''\<rparr>]"

definition TIMEOUT_MS :: nat where
  "TIMEOUT_MS = 5000"

definition DEFAULT_REFRESH_INTERVAL :: nat where
  "DEFAULT_REFRESH_INTERVAL = 5"

subsection \<open>The world one probe meets\<close>

text \<open>
  A \<open>Response\<close> as \<open>checkHealth\<close> uses it: the status code, the \<open>content-type\<close> header
  (\<open>headers.get\<close> gives \<open>null\<close> when there is none), and what \<open>response.json()\<close> and
  \<open>response.text()\<close> settle to (\<open>body_json\<close>, \<open>body_text\<close>). The type \<open>'j\<close> is the type of
  parsed JSON values.
\<close>

record 'j fetch_response =
  http_status :: nat
  content_type :: "string option"
  body_json :: "'j promise"
  body_text :: "string promise"

text \<open>
  What the network does with a request that nobody aborts: it answers after some
  milliseconds, it fails after some milliseconds, or it stays silent for ever.
\<close>

datatype 'j net_behaviour =
    Responds nat "'j fetch_response"
  | Fails nat js_error
  | Silent

text \<open>
  \<open>net\<close> is the network by URL; \<open>timer_first\<close> says which callback the event loop runs
  first when the answer and the timer are due in the same millisecond; \<open>abort_reason\<close> is
  the error with which the runtime rejects an aborted \<open>fetch\<close>; \<open>clock_start\<close> and
  \<open>clock_fetched\<close> are the two readings of \<open>Date.now()\<close>; \<open>stamp\<close> is
  \<open>new Date().toISOString()\<close> when the record is built.
\<close>

record 'j probe_world =
  net :: "string \<Rightarrow> 'j net_behaviour"
  timer_first :: bool
  abort_reason :: js_error
  clock_start :: int
  clock_fetched :: int
  stamp :: string

subsection \<open>\<open>fetchWithTimeout\<close>\<close>

text \<open>
  \<open>in_time w t timeout\<close>: the request settles at \<open>t\<close> before the timer of \<open>timeout\<close>
  milliseconds has fired.
\<close>

definition in_time :: "'j probe_world \<Rightarrow> nat \<Rightarrow> nat \<Rightarrow> bool" where
  "in_time w t timeout = (t < timeout \<or> (t = timeout \<and> \<not> timer_first w))"

text \<open>
  Lines 25 to 40. The timer calls \<open>controller.abort()\<close> after \<open>timeout\<close> milliseconds unless
  \<open>clearTimeout\<close> came first, and an aborted \<open>fetch\<close> rejects; both paths clear the timer
  and pass the outcome on. The first component of the result says whether
  \<open>controller.abort()\<close> ran. The \<open>options\<close> argument is left out: its only caller passes
  none.
\<close>

definition fetchWithTimeout ::
    "'j probe_world \<Rightarrow> string \<Rightarrow> nat \<Rightarrow> bool \<times> 'j fetch_response promise" where
  "fetchWithTimeout w u timeout =
     (case net w u of
        Responds t response \<Rightarrow>
          if in_time w t timeout then (False, Fulfilled response)
          else (True, Rejected (abort_reason w))
      | Fails t error \<Rightarrow>
          if in_time w t timeout then (False, Rejected error)
          else (True, Rejected (abort_reason w))
      | Silent \<Rightarrow> (True, Rejected (abort_reason w)))"

text \<open>
  A request exceeds a timeout when it is still in flight after that many milliseconds:
  it settles later, or never.
\<close>

fun exceeds_timeout :: "'j net_behaviour \<Rightarrow> nat \<Rightarrow> bool" where
  "exceeds_timeout (Responds t response) timeout = (timeout < t)"
| "exceeds_timeout (Fails t error) timeout = (timeout < t)"
| "exceeds_timeout Silent timeout = True"

subsection \<open>\<open>checkHealth\<close>\<close>

text \<open>\<open>responseData\<close> is either what \<open>response.json()\<close> or what \<open>response.text()\<close> gave.\<close>

datatype 'j response_data = JsonData 'j | TextData string

text \<open>
  Lines 52 to 59: the body is read with \<open>response.json()\<close> when the \<open>content-type\<close>
  header contains \<open>application/json\<close>, and with \<open>response.text()\<close> otherwise. A missing
  header counts as the empty string.
\<close>

definition read_body :: "'j fetch_response \<Rightarrow> 'j response_data promise" where
  "read_body response =
     (let contentType = (case content_type response of None \<Rightarrow> [] | Some v \<Rightarrow> v)
      in if str_includes contentType ''application/json''
         then then_map JsonData (body_json response)
         else then_map TextData (body_text response))"

text \<open>
  The object literals of lines 61 to 69 and 72 to 79. A key that a literal does not
  have is \<open>None\<close>.
\<close>

record 'j health_record = endpoint +
  status :: nat
  healthy :: bool
  latency :: "string option"
  response :: "'j response_data option"
  error :: "string option"
  timestamp :: string

text \<open>
  Lines 45 to 81. The two \<open>console\<close> lines are left out. The timeout is the default
  \<open>TIMEOUT_MS\<close> of \<open>fetchWithTimeout\<close>.
\<close>

definition checkHealth :: "'j probe_world \<Rightarrow> endpoint \<Rightarrow> 'j health_record promise" where
  "checkHealth w endpoint =
     try_catch
       (await (snd (fetchWithTimeout w (url endpoint) TIMEOUT_MS)) (\<lambda>response.
          let latency = clock_fetched w - clock_start w
          in await (read_body response) (\<lambda>responseData. Fulfilled
               \<lparr>name = name endpoint,
                url = url endpoint,
                status = http_status response,
                healthy = (http_status response \<ge> 200 \<and> http_status response < 300),
                latency = Some (show_int latency @ ''ms''),
                response = Some responseData,
                error = None,
                timestamp = stamp w\<rparr>)))
       (\<lambda>error. Fulfilled
          \<lparr>name = name endpoint,
           url = url endpoint,
           status = 0,
           healthy = False,
           latency = None,
           response = None,
           error = Some (message error),
           timestamp = stamp w\<rparr>)"

subsection \<open>The batch check\<close>

text \<open>
  What one run of the event loop gives to the probes it starts: \<open>probe w i\<close> is the world
  that the probe of the endpoint at index \<open>i\<close> meets, and \<open>settle_order w\<close> is the order in
  which the probes of a batch settle.
\<close>

record 'j world =
  probe :: "nat \<Rightarrow> 'j probe_world"
  settle_order :: "nat list"

text \<open>
  \<open>Promise.all(ENDPOINTS.map(checkHealth))\<close>, lines 90 and 282, with the endpoint table as
  an argument. \<open>map\<close> calls \<open>checkHealth\<close> on the elements in the order of the table.
\<close>

definition checkAll :: "endpoint list \<Rightarrow> 'j world \<Rightarrow> 'j health_record list promise" where
  "checkAll eps w =
     Promise_all (map (\<lambda>(i, endpoint). checkHealth (probe w i) endpoint) (enumerate 0 eps))
       (settle_order w)"

subsection \<open>The cache and the background check\<close>

text \<open>The two module-level variables of lines 84 and 85, and their initial values.\<close>

record 'j state =
  healthCheckInterval :: "nat option"
  lastCheckResults :: "'j health_record list"

definition initial_state :: "'j state" where
  "initial_state = \<lparr>healthCheckInterval = None, lastCheckResults = []\<rparr>"

text \<open>
  Lines 88 to 92, without the two \<open>console.log\<close> lines: the assignment runs when the
  awaited batch is fulfilled, and not otherwise.
\<close>

definition backgroundHealthCheck ::
    "endpoint list \<Rightarrow> 'j world \<Rightarrow> 'j state \<Rightarrow> unit promise \<times> 'j state" where
  "backgroundHealthCheck eps w s =
     (case checkAll eps w of
        Pending \<Rightarrow> (Pending, s)
      | Rejected e \<Rightarrow> (Rejected e, s)
      | Fulfilled results \<Rightarrow> (Fulfilled (), s\<lparr>lastCheckResults := results\<rparr>))"

subsection \<open>The request handler\<close>

text \<open>
  Of a request the handler reads the method and the path of its URL. A response has a
  status, headers and a body; \<open>JSON.stringify\<close> of a value and the HTML page of lines 115
  to 270 are kept as constructors of the values they render.
\<close>

record request =
  http_method :: string
  pathname :: string

datatype 'j body =
    NoBody
  | Dashboard nat "endpoint list"
  | JsonOfRecords "'j health_record list"
  | JsonOfRecord "'j health_record"
  | PlainText string

record 'j http_response =
  resp_status :: nat
  resp_headers :: "(string \<times> string) list"
  resp_body :: "'j body"

definition cors_headers :: "(string \<times> string) list" where
  "cors_headers =
     [(''Access-Control-Allow-Origin'', ''*''),
      (''Access-Control-Allow-Methods'', ''GET, OPTIONS''),
      (''Access-Control-Allow-Headers'', ''Content-Type'')]"

text \<open>
  \<open>new Response(body, {status, headers: new Headers({...Object.fromEntries(headers),
  "Content-Type": t})})\<close>; the status is 200 where the source gives none.
\<close>

definition respond :: "nat \<Rightarrow> string \<Rightarrow> 'j body \<Rightarrow> 'j http_response" where
  "respond st t b =
     \<lparr>resp_status = st, resp_headers = cors_headers @ [(''Content-Type'', t)], resp_body = b\<rparr>"

text \<open>
  \<open>pathname.match(/^\/check\/(\d+)$/)\<close>: the path is \<open>/check/\<close> followed by one or more
  ASCII digits and nothing else; the result is the group \<open>match[1]\<close>.
\<close>

definition match_check :: "string \<Rightarrow> string option" where
  "match_check p =
     (if take 7 p = ''/check/'' \<and> drop 7 p \<noteq> [] \<and> list_all is_digit (drop 7 p)
      then Some (drop 7 p) else None)"

text \<open>
  Lines 97 to 329, with the endpoint table as an argument (the server runs it on
  \<open>ENDPOINTS\<close>). The result is the promise of the response together with the module
  state when the handler has run as far as it ever gets. An index beyond the table and
  a path that does not match both fall through to the 404 of lines 322 to 328.
\<close>

definition handler ::
    "endpoint list \<Rightarrow> 'j world \<Rightarrow> request \<Rightarrow> 'j state \<Rightarrow> 'j http_response promise \<times> 'j state" where
  "handler eps w req s =
     (if http_method req = ''OPTIONS'' then
        (Fulfilled \<lparr>resp_status = 200, resp_headers = cors_headers, resp_body = NoBody\<rparr>, s)
      else if pathname req = ''/'' then
        (Fulfilled (respond 200 ''text/html; charset=utf-8''
                      (Dashboard DEFAULT_REFRESH_INTERVAL eps)), s)
      else if pathname req = ''/check'' then
        (case checkAll eps w of
           Pending \<Rightarrow> (Pending, s)
         | Rejected e \<Rightarrow> (Rejected e, s)
         | Fulfilled results \<Rightarrow>
             (Fulfilled (respond 200 ''application/json'' (JsonOfRecords results)),
              s\<lparr>lastCheckResults := results\<rparr>))
      else if pathname req = ''/last-check'' then
        (Fulfilled (respond 200 ''application/json'' (JsonOfRecords (lastCheckResults s))), s)
      else
        (case match_check (pathname req) of
           Some digits \<Rightarrow>
             (let index = parseInt digits in
              if index \<ge> 0 \<and> index < length eps then
                (case checkHealth (probe w index) (eps ! index) of
                   Pending \<Rightarrow> (Pending, s)
                 | Rejected e \<Rightarrow> (Rejected e, s)
                 | Fulfilled result \<Rightarrow>
                     (Fulfilled (respond 200 ''application/json'' (JsonOfRecord result)), s))
              else (Fulfilled (respond 404 ''text/plain'' (PlainText ''Not Found'')), s))
         | None \<Rightarrow> (Fulfilled (respond 404 ''text/plain'' (PlainText ''Not Found'')), s)))"

subsection \<open>Concrete worlds\<close>

text \<open>
  A small type of JSON values and a few worlds, on which the theorems below are
  evaluated: an endpoint that answers 200 with a JSON body, one that answers 503 with a
  text body, two whose declared JSON body does not parse, one whose body never ends,
  and one that never answers.
\<close>

datatype json = JNull | JBool bool | JNum int | JStr string | JArr "json list"
  | JObj "(string \<times> json) list"

definition ok_response :: "json fetch_response" where
  "ok_response =
     \<lparr>http_status = 200, content_type = Some ''application/json; charset=utf-8'',
      body_json = Fulfilled (JObj [(''status'', JStr ''ok'')]),
      body_text = Fulfilled ''{status: ok}''\<rparr>"

definition unavailable_response :: "json fetch_response" where
  "unavailable_response =
     \<lparr>http_status = 503, content_type = Some ''text/plain'',
      body_json = Rejected (JsError ''Unexpected token S in JSON at position 0''),
      body_text = Fulfilled ''Service Unavailable''\<rparr>"

definition truncated_response :: "json fetch_response" where
  "truncated_response =
     \<lparr>http_status = 200, content_type = Some ''application/json'',
      body_json = Rejected (JsError ''Unexpected end of JSON input''),
      body_text = Fulfilled ''{status:''\<rparr>"

definition unavailable_html_response :: "json fetch_response" where
  "unavailable_html_response =
     \<lparr>http_status = 503, content_type = Some ''application/json'',
      body_json = Rejected (JsError ''Unexpected token < in JSON at position 0''),
      body_text = Fulfilled ''<html>Service Unavailable</html>''\<rparr>"

text \<open>A response whose headers arrive and whose body never ends.\<close>

definition stalled_response :: "json fetch_response" where
  "stalled_response =
     \<lparr>http_status = 200, content_type = Some ''application/json'',
      body_json = Pending, body_text = Pending\<rparr>"

definition world_of :: "json net_behaviour \<Rightarrow> json probe_world" where
  "world_of b =
     \<lparr>net = (\<lambda>u. b), timer_first = True,
      abort_reason = JsError ''The signal has been aborted'',
      clock_start = 1700000000000, clock_fetched = 1700000000120,
      stamp = ''2023-11-14T22:13:20.120Z''\<rparr>"

definition demo_world :: "json world" where
  "demo_world =
     \<lparr>probe = (\<lambda>i. if i = 0 then world_of (Responds 120 ok_response)
                    else world_of (Responds 120 unavailable_response)),
      settle_order = [1, 0]\<rparr>"

definition gemini_record :: "json health_record" where
  "gemini_record =
     \<lparr>name = ''Gemini Balance'', url = ''https://luckiness-me-gemini-balance.hf.space/health'',
      status = 200, healthy = True, latency = Some ''120ms'',
      response = Some (JsonData (JObj [(''status'', JStr ''ok'')])), error = None,
      timestamp = ''2023-11-14T22:13:20.120Z''\<rparr>"

definition demo_record :: "json health_record" where
  "demo_record =
     \<lparr>name = ''Demo API'', url = ''https://luckiness-test-df-demo.hf.space/health'',
      status = 503, healthy = False, latency = Some ''120ms'',
      response = Some (TextData ''Service Unavailable''), error = None,
      timestamp = ''2023-11-14T22:13:20.120Z''\<rparr>"

text \<open>The record of a failed probe of the second endpoint, with the given message.\<close>

definition demo_failure :: "string \<Rightarrow> json health_record" where
  "demo_failure m =
     \<lparr>name = ''Demo API'', url = ''https://luckiness-test-df-demo.hf.space/health'',
      status = 0, healthy = False, latency = None, response = None, error = Some m,
      timestamp = ''2023-11-14T22:13:20.120Z''\<rparr>"

section \<open>Properties\<close>

subsection \<open>Evaluation and the cases of \<open>checkHealth\<close>\<close>

text \<open>
  \<open>show_nat\<close> calls itself under a condition, so its equation is unfolded on request
  only. \<open>world_defs\<close> are the definitions needed to evaluate a probe in a concrete world.
\<close>

declare show_nat.simps [simp del]

lemmas world_defs = checkHealth_def fetchWithTimeout_def read_body_def world_of_def in_time_def
  TIMEOUT_MS_def ok_response_def unavailable_response_def truncated_response_def
  unavailable_html_response_def stalled_response_def ENDPOINTS_def show_int_def show_nat.simps Let_def
  demo_world_def gemini_record_def demo_record_def demo_failure_def

text \<open>
  \<open>fetchWithTimeout\<close> always settles, and \<open>checkHealth\<close> has four outcomes: the fetch is
  rejected, or a response arrives and the body read is rejected, never settles, or is
  fulfilled.
\<close>

lemma fetchWithTimeout_settles: "snd (fetchWithTimeout w u t) \<noteq> Pending"
  by (simp add: fetchWithTimeout_def split: net_behaviour.splits)

lemma checkHealth_fetch_rejected:
  "snd (fetchWithTimeout w (url e) TIMEOUT_MS) = Rejected x \<Longrightarrow>
   checkHealth w e = Fulfilled
     \<lparr>name = name e, url = url e, status = 0, healthy = False, latency = None,
      response = None, error = Some (message x), timestamp = stamp w\<rparr>"
  by (simp add: checkHealth_def)

lemma checkHealth_body_rejected:
  "snd (fetchWithTimeout w (url e) TIMEOUT_MS) = Fulfilled r \<Longrightarrow> read_body r = Rejected x \<Longrightarrow>
   checkHealth w e = Fulfilled
     \<lparr>name = name e, url = url e, status = 0, healthy = False, latency = None,
      response = None, error = Some (message x), timestamp = stamp w\<rparr>"
  by (simp add: checkHealth_def)

lemma checkHealth_body_pending:
  "snd (fetchWithTimeout w (url e) TIMEOUT_MS) = Fulfilled r \<Longrightarrow> read_body r = Pending \<Longrightarrow>
   checkHealth w e = Pending"
  by (simp add: checkHealth_def)

lemma checkHealth_body_fulfilled:
  "snd (fetchWithTimeout w (url e) TIMEOUT_MS) = Fulfilled r \<Longrightarrow> read_body r = Fulfilled d \<Longrightarrow>
   checkHealth w e = Fulfilled
     \<lparr>name = name e, url = url e, status = http_status r,
      healthy = (200 \<le> http_status r \<and> http_status r < 300),
      latency = Some (show_int (clock_fetched w - clock_start w) @ ''ms''),
      response = Some d, error = None, timestamp = stamp w\<rparr>"
  by (simp add: checkHealth_def)

lemma checkHealth_not_rejected: "checkHealth w e \<noteq> Rejected x"
proof (cases "snd (fetchWithTimeout w (url e) TIMEOUT_MS)")
  case Pending
  then show ?thesis by (simp add: fetchWithTimeout_settles)
next
  case (Rejected y)
  then show ?thesis by (simp add: checkHealth_fetch_rejected)
next
  case (Fulfilled r)
  then show ?thesis
    by (cases "read_body r")
       (simp_all add: checkHealth_body_pending checkHealth_body_rejected checkHealth_body_fulfilled)
qed

text \<open>
  A record that \<open>checkHealth\<close> produced is the failure literal, after a rejected fetch or
  a rejected body read, or the success literal, after a response whose body was read.
\<close>

lemma checkHealth_cases [consumes 1, case_names failure success]:
  assumes "checkHealth w e = Fulfilled h"
  obtains
    (failure) x where
      "snd (fetchWithTimeout w (url e) TIMEOUT_MS) = Rejected x
       \<or> (\<exists>r. snd (fetchWithTimeout w (url e) TIMEOUT_MS) = Fulfilled r \<and> read_body r = Rejected x)"
      "h = \<lparr>name = name e, url = url e, status = 0, healthy = False, latency = None,
            response = None, error = Some (message x), timestamp = stamp w\<rparr>"
  | (success) r d where
      "snd (fetchWithTimeout w (url e) TIMEOUT_MS) = Fulfilled r" "read_body r = Fulfilled d"
      "h = \<lparr>name = name e, url = url e, status = http_status r,
            healthy = (200 \<le> http_status r \<and> http_status r < 300),
            latency = Some (show_int (clock_fetched w - clock_start w) @ ''ms''),
            response = Some d, error = None, timestamp = stamp w\<rparr>"
proof (cases "snd (fetchWithTimeout w (url e) TIMEOUT_MS)")
  case Pending
  then show ?thesis by (simp add: fetchWithTimeout_settles)
next
  case (Rejected x)
  with checkHealth_fetch_rejected[OF this] assms failure show ?thesis by simp
next
  case (Fulfilled r)
  note f = this
  show ?thesis
  proof (cases "read_body r")
    case Pending
    with checkHealth_body_pending[OF f this] assms show ?thesis by simp
  next
    case (Rejected x)
    with checkHealth_body_rejected[OF f this] assms f failure[of x] show ?thesis by simp
  next
    case (Fulfilled d)
    with checkHealth_body_fulfilled[OF f this] assms f success[of r d] show ?thesis by simp
  qed
qed

lemma healthy_iff_status:
  assumes "checkHealth w e = Fulfilled h"
  shows "healthy h = (200 \<le> status h \<and> status h < 300)"
  using assms by (cases rule: checkHealth_cases) simp_all

lemma fetchWithTimeout_overdue:
  "exceeds_timeout (net w u) t \<Longrightarrow> fetchWithTimeout w u t = (True, Rejected (abort_reason w))"
  by (cases "net w u") (simp_all add: fetchWithTimeout_def in_time_def)

subsection \<open>\<open>Promise.all\<close> and the batch\<close>

text \<open>
  \<open>resolve_elements\<close> is fulfilled only with the values of its inputs, slot by slot; it
  is fulfilled with them as soon as every input is fulfilled and has its event in the
  order; and it is rejected only when an input is.
\<close>

lemma those_eq_Some: "those xs = Some ys \<longleftrightarrow> xs = map Some ys"
  by (induction xs arbitrary: ys) (auto split: option.splits)

lemma resolve_elements_complete:
  assumes "length vs = length ps" "\<forall>i<length ps. ps ! i = Fulfilled (vs ! i)"
    "length values = length ps"
    "\<forall>i<length ps. values ! i = None \<or> values ! i = Some (vs ! i)"
    "\<forall>i<length ps. values ! i \<noteq> None \<or> i \<in> set order"
  shows "resolve_elements ps order values = Fulfilled vs"
  using assms
proof (induction order arbitrary: "values")
  case Nil
  have "values ! i = map Some vs ! i" if "i < length values" for i
    using Nil that by (metis empty_iff list.set(1) nth_map)
  then have "values = map Some vs"
    using Nil by (intro nth_equalityI) simp_all
  then show ?case by (simp add: those_eq_Some[THEN iffD2])
next
  case (Cons i order)
  show ?case
  proof (cases "i < length ps")
    case True
    let ?v = "values[i := Some (vs ! i)]"
    have a: "length ?v = length ps" using Cons.prems by simp
    have b: "\<forall>k<length ps. ?v ! k = None \<or> ?v ! k = Some (vs ! k)"
    proof (intro allI impI)
      fix k assume "k < length ps"
      then show "?v ! k = None \<or> ?v ! k = Some (vs ! k)"
        using Cons.prems(3,4) by (cases "k = i") simp_all
    qed
    have c: "\<forall>k<length ps. ?v ! k \<noteq> None \<or> k \<in> set order"
    proof (intro allI impI)
      fix k assume k: "k < length ps"
      then have "values ! k \<noteq> None \<or> k = i \<or> k \<in> set order"
        using Cons.prems(5) by simp
      then show "?v ! k \<noteq> None \<or> k \<in> set order"
        using Cons.prems(3) k by (cases "k = i") simp_all
    qed
    have "resolve_elements ps order ?v = Fulfilled vs"
      using Cons.IH[OF Cons.prems(1,2) a b c] .
    then show ?thesis using True Cons.prems(2) by simp
  next
    case False
    have c: "\<forall>k<length ps. values ! k \<noteq> None \<or> k \<in> set order"
      using Cons.prems(5) False by auto
    have "resolve_elements ps order values = Fulfilled vs"
      using Cons.IH[OF Cons.prems(1,2,3,4) c] .
    then show ?thesis using False by simp
  qed
qed

lemma resolve_elements_sound:
  assumes "resolve_elements ps order values = Fulfilled vs"
    "length values = length ps"
    "\<forall>k<length ps. \<forall>v. values ! k = Some v \<longrightarrow> ps ! k = Fulfilled v"
  shows "length vs = length ps \<and> (\<forall>k<length ps. ps ! k = Fulfilled (vs ! k))"
  using assms
proof (induction order arbitrary: "values")
  case Nil
  then have "values = map Some vs"
    by (simp add: those_eq_Some split: option.splits)
  with Nil.prems(2,3) show ?case by auto
next
  case (Cons i order)
  show ?case
  proof (cases "i < length ps")
    case False
    with Cons.prems have "resolve_elements ps order values = Fulfilled vs" by simp
    from Cons.IH[OF this Cons.prems(2,3)] show ?thesis .
  next
    case True
    show ?thesis
    proof (cases "ps ! i")
      case Pending
      with True Cons.prems have "resolve_elements ps order values = Fulfilled vs" by simp
      from Cons.IH[OF this Cons.prems(2,3)] show ?thesis .
    next
      case (Rejected x)
      with True Cons.prems(1) show ?thesis by simp
    next
      case (Fulfilled v)
      let ?v = "values[i := Some v]"
      from Fulfilled True Cons.prems(1) have r: "resolve_elements ps order ?v = Fulfilled vs"
        by simp
      have a: "length ?v = length ps" using Cons.prems(2) by simp
      have b: "\<forall>k<length ps. \<forall>u. ?v ! k = Some u \<longrightarrow> ps ! k = Fulfilled u"
      proof (intro allI impI)
        fix k u assume "k < length ps" "?v ! k = Some u"
        then show "ps ! k = Fulfilled u"
          using Cons.prems(2,3) Fulfilled by (cases "k = i") simp_all
      qed
      from Cons.IH[OF r a b] show ?thesis .
    qed
  qed
qed

lemma resolve_elements_not_rejected:
  "\<forall>i<length ps. \<forall>x. ps ! i \<noteq> Rejected x \<Longrightarrow> resolve_elements ps order values \<noteq> Rejected y"
proof (induction order arbitrary: "values")
  case Nil
  then show ?case by (simp split: option.splits)
next
  case (Cons i order)
  then show ?case by (cases "ps ! i") auto
qed

lemma checkAll_not_rejected: "checkAll eps w \<noteq> Rejected y"
  unfolding checkAll_def Promise_all_def
  by (rule resolve_elements_not_rejected) (auto simp: checkHealth_not_rejected split: prod.splits)

lemma checkAll_sound:
  assumes "checkAll eps w = Fulfilled rs"
  shows "length rs = length eps \<and> (\<forall>i<length eps. checkHealth (probe w i) (eps ! i) = Fulfilled (rs ! i))"
proof -
  let ?ps = "map (\<lambda>(i, endpoint). checkHealth (probe w i) endpoint) (enumerate 0 eps)"
  have "length rs = length ?ps \<and> (\<forall>k<length ?ps. ?ps ! k = Fulfilled (rs ! k))"
    using assms unfolding checkAll_def Promise_all_def
    by (rule resolve_elements_sound) simp_all
  then show ?thesis by (simp add: nth_enumerate_eq)
qed

lemma checkAll_complete:
  assumes "length rs = length eps"
    "\<forall>i<length eps. checkHealth (probe w i) (eps ! i) = Fulfilled (rs ! i)"
    "{0..<length eps} \<subseteq> set (settle_order w)"
  shows "checkAll eps w = Fulfilled rs"
  unfolding checkAll_def Promise_all_def
proof (rule resolve_elements_complete)
  show "\<forall>i<length (map (\<lambda>(i, endpoint). checkHealth (probe w i) endpoint) (enumerate 0 eps)).
       replicate (length (map (\<lambda>(i, endpoint). checkHealth (probe w i) endpoint) (enumerate 0 eps))) None ! i \<noteq> None \<or> i \<in> set (settle_order w)"
    using assms(3) by auto
qed (use assms in \<open>simp_all add: nth_enumerate_eq\<close>)

subsection \<open>The batch keeps the order of the endpoint table\<close>

text \<open>
  C1. For every list of endpoints, a batch that returns returns exactly one record for
  each endpoint, and the record at position \<open>i\<close> is the one that the probe of the endpoint
  at position \<open>i\<close> produced. The batch does return when every probe produces a record and
  settles, in whatever order; and two batches that differ only in the order in which
  the probes settle return the same list.
\<close>

theorem batch_keeps_input_order:
  "(checkAll eps w = Fulfilled rs \<longrightarrow>
      length rs = length eps
      \<and> (\<forall>i<length eps. checkHealth (probe w i) (eps ! i) = Fulfilled (rs ! i)))
   \<and> (length rs' = length eps'
      \<and> (\<forall>i<length eps'. checkHealth (probe w' i) (eps' ! i) = Fulfilled (rs' ! i))
      \<and> {0..<length eps'} \<subseteq> set (settle_order w')
      \<longrightarrow> checkAll eps' w' = Fulfilled rs')
   \<and> (checkAll eps w = Fulfilled rs \<and> checkAll eps (w\<lparr>settle_order := order'\<rparr>) = Fulfilled rs''
      \<longrightarrow> rs'' = rs)"
proof (intro conjI impI)
  assume "checkAll eps w = Fulfilled rs"
  then show "length rs = length eps" by (simp add: checkAll_sound)
next
  assume "checkAll eps w = Fulfilled rs"
  then show "\<forall>i<length eps. checkHealth (probe w i) (eps ! i) = Fulfilled (rs ! i)"
    by (simp add: checkAll_sound)
next
  assume "length rs' = length eps'
      \<and> (\<forall>i<length eps'. checkHealth (probe w' i) (eps' ! i) = Fulfilled (rs' ! i))
      \<and> {0..<length eps'} \<subseteq> set (settle_order w')"
  then show "checkAll eps' w' = Fulfilled rs'" by (intro checkAll_complete) simp_all
next
  assume a: "checkAll eps w = Fulfilled rs \<and> checkAll eps (w\<lparr>settle_order := order'\<rparr>) = Fulfilled rs''"
  from a checkAll_sound[of eps w rs] checkAll_sound[of eps "w\<lparr>settle_order := order'\<rparr>" rs'']
  show "rs'' = rs"
    by (intro nth_equalityI) auto
qed

theorem batch_keeps_input_order_witness:
  "settle_order demo_world = [1, 0]
   \<and> checkAll ENDPOINTS demo_world = Fulfilled [gemini_record, demo_record]
   \<and> checkAll ENDPOINTS (demo_world\<lparr>settle_order := [0, 1]\<rparr>)
       = Fulfilled [gemini_record, demo_record]
   \<and> length [gemini_record, demo_record] = length ENDPOINTS"
proof -
  have len: "length [gemini_record, demo_record] = length ENDPOINTS"
    by (simp add: ENDPOINTS_def)
  have each: "\<forall>i<length ENDPOINTS. checkHealth (probe demo_world i) (ENDPOINTS ! i)
                = Fulfilled ([gemini_record, demo_record] ! i)"
    by (simp add: world_defs less_Suc_eq)
  have fair: "{0..<length ENDPOINTS} \<subseteq> set (settle_order demo_world)"
    by (auto simp add: world_defs)
  have other: "checkAll ENDPOINTS (demo_world\<lparr>settle_order := [0, 1]\<rparr>)
                 = Fulfilled [gemini_record, demo_record]"
    by (simp add: checkAll_def Promise_all_def world_defs)
  have ord: "settle_order demo_world = [1, 0]"
    by (simp add: demo_world_def)
  from batch_keeps_input_order
         [of ENDPOINTS demo_world "[gemini_record, demo_record]" "[gemini_record, demo_record]"
             ENDPOINTS demo_world "[0, 1]" "[gemini_record, demo_record]"]
       len each fair other ord
  show ?thesis
    by blast
qed

subsection \<open>The shape of a health record\<close>

text \<open>
  C2. Every record that \<open>checkHealth\<close> produces has one of two shapes: \<open>latency\<close> and
  \<open>response\<close> are present and \<open>error\<close> is absent, or \<open>error\<close> is present and \<open>latency\<close> and
  \<open>response\<close> are absent. In both, \<open>healthy\<close> is the truth value of
  \<open>200 \<le> status < 300\<close>.
\<close>

theorem health_record_invariant:
  assumes "checkHealth w e = Fulfilled r"
  shows "((latency r \<noteq> None \<and> response r \<noteq> None \<and> error r = None)
          \<or> (error r \<noteq> None \<and> latency r = None \<and> response r = None))
         \<and> healthy r = (200 \<le> status r \<and> status r < 300)"
  using assms by (cases rule: checkHealth_cases) simp_all

theorem health_record_invariant_witness:
  "checkHealth (probe demo_world 0) (ENDPOINTS ! 0) = Fulfilled gemini_record
   \<and> latency gemini_record \<noteq> None \<and> response gemini_record \<noteq> None \<and> error gemini_record = None
   \<and> healthy gemini_record = (200 \<le> status gemini_record \<and> status gemini_record < 300)
   \<and> checkHealth (world_of Silent) (ENDPOINTS ! 1)
       = Fulfilled (demo_failure ''The signal has been aborted'')
   \<and> error (demo_failure ''The signal has been aborted'') \<noteq> None
   \<and> latency (demo_failure ''The signal has been aborted'') = None
   \<and> response (demo_failure ''The signal has been aborted'') = None"
proof -
  have h: "checkHealth (probe demo_world 0) (ENDPOINTS ! 0) = Fulfilled gemini_record"
    by (simp add: world_defs)
  have f: "checkHealth (world_of Silent) (ENDPOINTS ! 1)
             = Fulfilled (demo_failure ''The signal has been aborted'')"
    by (simp add: world_defs)
  from health_record_invariant[OF h] health_record_invariant[OF f] h f show ?thesis
    by (simp add: gemini_record_def demo_failure_def)
qed

subsection \<open>Status 200 with JSON, status 503\<close>

text \<open>
  C3, as the code has it. When the fetch delivers a response with status 200 whose
  \<open>content-type\<close> contains \<open>application/json\<close> and whose \<open>response.json()\<close> is fulfilled
  with \<open>j\<close>, the record has \<open>healthy = true\<close>, \<open>status = 200\<close>, \<open>response = j\<close> and no
  \<open>error\<close>. When the fetch delivers a response with status 503 whose body read is
  fulfilled, the record has \<open>healthy = false\<close>, \<open>status = 503\<close> and no \<open>error\<close>. In every
  record \<open>healthy\<close> is true exactly when \<open>200 \<le> status < 300\<close>.

  Without the condition on the body read the statement fails: the body read is inside
  the \<open>try\<close> block, so a 503 response whose declared JSON body does not parse gives
  \<open>status = 0\<close> and an \<open>error\<close>; the counterexample after the theorem evaluates one.
\<close>

theorem checkHealth_classifies_status:
  "(snd (fetchWithTimeout w (url e) TIMEOUT_MS) = Fulfilled r \<and> http_status r = 200
      \<and> content_type r = Some ct \<and> str_includes ct ''application/json''
      \<and> body_json r = Fulfilled j
    \<longrightarrow> checkHealth w e = Fulfilled
          \<lparr>name = name e, url = url e, status = 200, healthy = True,
           latency = Some (show_int (clock_fetched w - clock_start w) @ ''ms''),
           response = Some (JsonData j), error = None, timestamp = stamp w\<rparr>)
   \<and> (snd (fetchWithTimeout w' (url e') TIMEOUT_MS) = Fulfilled r' \<and> http_status r' = 503
      \<and> read_body r' = Fulfilled d
    \<longrightarrow> checkHealth w' e' = Fulfilled
          \<lparr>name = name e', url = url e', status = 503, healthy = False,
           latency = Some (show_int (clock_fetched w' - clock_start w') @ ''ms''),
           response = Some d, error = None, timestamp = stamp w'\<rparr>)
   \<and> (checkHealth w'' e'' = Fulfilled h
    \<longrightarrow> healthy h = (200 \<le> status h \<and> status h < 300))"
proof (intro conjI impI)
  assume a: "snd (fetchWithTimeout w (url e) TIMEOUT_MS) = Fulfilled r \<and> http_status r = 200
      \<and> content_type r = Some ct \<and> str_includes ct ''application/json''
      \<and> body_json r = Fulfilled j"
  then have "read_body r = Fulfilled (JsonData j)"
    by (simp add: read_body_def)
  with a show "checkHealth w e = Fulfilled
          \<lparr>name = name e, url = url e, status = 200, healthy = True,
           latency = Some (show_int (clock_fetched w - clock_start w) @ ''ms''),
           response = Some (JsonData j), error = None, timestamp = stamp w\<rparr>"
    by (simp add: checkHealth_body_fulfilled)
next
  assume "snd (fetchWithTimeout w' (url e') TIMEOUT_MS) = Fulfilled r' \<and> http_status r' = 503
      \<and> read_body r' = Fulfilled d"
  then show "checkHealth w' e' = Fulfilled
          \<lparr>name = name e', url = url e', status = 503, healthy = False,
           latency = Some (show_int (clock_fetched w' - clock_start w') @ ''ms''),
           response = Some d, error = None, timestamp = stamp w'\<rparr>"
    by (simp add: checkHealth_body_fulfilled)
next
  assume "checkHealth w'' e'' = Fulfilled h"
  then show "healthy h = (200 \<le> status h \<and> status h < 300)"
    by (rule healthy_iff_status)
qed

theorem checkHealth_classifies_status_witness:
  "checkHealth (probe demo_world 0) (ENDPOINTS ! 0) = Fulfilled gemini_record
   \<and> checkHealth (probe demo_world 1) (ENDPOINTS ! 1) = Fulfilled demo_record
   \<and> healthy gemini_record = (200 \<le> status gemini_record \<and> status gemini_record < 300)"
proof -
  have f0: "snd (fetchWithTimeout (probe demo_world 0) (url (ENDPOINTS ! 0)) TIMEOUT_MS)
              = Fulfilled ok_response"
    by (simp add: fetchWithTimeout_def demo_world_def world_of_def in_time_def TIMEOUT_MS_def)
  have s0: "http_status ok_response = 200
            \<and> content_type ok_response = Some ''application/json; charset=utf-8''
            \<and> str_includes ''application/json; charset=utf-8'' ''application/json''
            \<and> body_json ok_response = Fulfilled (JObj [(''status'', JStr ''ok'')])"
    by (simp add: ok_response_def)
  have f1: "snd (fetchWithTimeout (probe demo_world 1) (url (ENDPOINTS ! 1)) TIMEOUT_MS)
              = Fulfilled unavailable_response"
    by (simp add: fetchWithTimeout_def demo_world_def world_of_def in_time_def TIMEOUT_MS_def)
  have s1: "http_status unavailable_response = 503
            \<and> read_body unavailable_response = Fulfilled (TextData ''Service Unavailable'')"
    by (simp add: unavailable_response_def read_body_def)
  have r0: "\<lparr>name = name (ENDPOINTS ! 0), url = url (ENDPOINTS ! 0), status = 200, healthy = True,
           latency = Some (show_int (clock_fetched (probe demo_world 0) - clock_start (probe demo_world 0)) @ ''ms''),
           response = Some (JsonData (JObj [(''status'', JStr ''ok'')])), error = None,
           timestamp = stamp (probe demo_world 0)\<rparr> = gemini_record"
    by (simp add: world_defs)
  have r1: "\<lparr>name = name (ENDPOINTS ! 1), url = url (ENDPOINTS ! 1), status = 503, healthy = False,
           latency = Some (show_int (clock_fetched (probe demo_world 1) - clock_start (probe demo_world 1)) @ ''ms''),
           response = Some (TextData ''Service Unavailable''), error = None,
           timestamp = stamp (probe demo_world 1)\<rparr> = demo_record"
    by (simp add: world_defs)
  from checkHealth_classifies_status
    [of "probe demo_world 0" "ENDPOINTS ! 0" ok_response "''application/json; charset=utf-8''"
        "JObj [(''status'', JStr ''ok'')]"
        "probe demo_world 1" "ENDPOINTS ! 1" unavailable_response "TextData ''Service Unavailable''"
        "probe demo_world 0" "ENDPOINTS ! 0" gemini_record]
    f0 s0 f1 s1
  have "checkHealth (probe demo_world 0) (ENDPOINTS ! 0) = Fulfilled gemini_record
        \<and> checkHealth (probe demo_world 1) (ENDPOINTS ! 1) = Fulfilled demo_record
        \<and> (checkHealth (probe demo_world 0) (ENDPOINTS ! 0) = Fulfilled gemini_record
           \<longrightarrow> healthy gemini_record = (200 \<le> status gemini_record \<and> status gemini_record < 300))"
    unfolding r0 r1 by blast
  then show ?thesis by blast
qed

theorem status_503_counterexample:
  "snd (fetchWithTimeout (world_of (Responds 120 unavailable_html_response))
         (url (ENDPOINTS ! 1)) TIMEOUT_MS) = Fulfilled unavailable_html_response
   \<and> http_status unavailable_html_response = 503
   \<and> checkHealth (world_of (Responds 120 unavailable_html_response)) (ENDPOINTS ! 1)
       = Fulfilled (demo_failure ''Unexpected token < in JSON at position 0'')
   \<and> status (demo_failure ''Unexpected token < in JSON at position 0'') = 0
   \<and> error (demo_failure ''Unexpected token < in JSON at position 0'')
       = Some ''Unexpected token < in JSON at position 0''"
  by (simp add: world_defs)

subsection \<open>\<open>checkHealth\<close> never throws\<close>

text \<open>
  A probe stays pending exactly when a response arrived and its body read never
  settles; otherwise it returns a record. A batch returns when no probe of it is in
  that case and every probe has its event in the settle order.
\<close>

lemma checkHealth_pending_iff:
  "(checkHealth w e = Pending) =
     (\<exists>r. snd (fetchWithTimeout w (url e) TIMEOUT_MS) = Fulfilled r \<and> read_body r = Pending)"
proof (cases "snd (fetchWithTimeout w (url e) TIMEOUT_MS)")
  case Pending
  then show ?thesis by (simp add: fetchWithTimeout_settles)
next
  case (Rejected x)
  then show ?thesis by (simp add: checkHealth_fetch_rejected)
next
  case (Fulfilled r)
  then show ?thesis
    by (cases "read_body r")
       (simp_all add: checkHealth_body_pending checkHealth_body_rejected checkHealth_body_fulfilled)
qed

lemma checkHealth_returns:
  assumes "\<forall>r. snd (fetchWithTimeout w (url e) TIMEOUT_MS) = Fulfilled r \<longrightarrow> read_body r \<noteq> Pending"
  shows "\<exists>h. checkHealth w e = Fulfilled h"
proof (cases "checkHealth w e")
  case Pending
  with assms show ?thesis by (auto simp: checkHealth_pending_iff)
next
  case (Rejected x)
  then show ?thesis by (simp add: checkHealth_not_rejected)
next
  case (Fulfilled h)
  then show ?thesis by simp
qed

lemma checkAll_returns:
  assumes "\<forall>i<length eps. \<forall>r.
             snd (fetchWithTimeout (probe ws i) (url (eps ! i)) TIMEOUT_MS) = Fulfilled r
             \<longrightarrow> read_body r \<noteq> Pending"
    and "{0..<length eps} \<subseteq> set (settle_order ws)"
  shows "\<exists>rs. checkAll eps ws = Fulfilled rs \<and> length rs = length eps"
proof -
  have "\<forall>i<length eps. \<exists>h. checkHealth (probe ws i) (eps ! i) = Fulfilled h"
    using assms(1) by (simp add: checkHealth_returns)
  then obtain rs where rs: "length rs = length eps"
      "\<forall>i<length eps. checkHealth (probe ws i) (eps ! i) = Fulfilled (rs ! i)"
    using Skolem_list_nth[of "length eps" "\<lambda>i h. checkHealth (probe ws i) (eps ! i) = Fulfilled h"]
    by blast
  from checkAll_complete[OF rs assms(2)] rs(1) show ?thesis by blast
qed

text \<open>
  C4, as the code has it. \<open>checkHealth\<close> never rejects. It returns a record for every
  outcome of the fetch and of the body read: a rejected fetch and a thrown body read
  give the failure record with the message of the error, and a fetch that never answers
  is aborted by the timer and gives the failure record too. It stays pending for ever
  in one case only, a response whose body read never settles, because line 34 has
  cleared the timer before the body is read. So a batch never rejects; it returns one
  record for each endpoint whenever no body read of it stays unsettled; and the record
  of a probe whose fetch was rejected is the failure record at the probe's position.

  As the claim words it, that \<open>checkHealth\<close> is total, the statement fails: with a
  response whose body never ends the probe and the batch stay pending, as the
  counterexample after the theorem evaluates.
\<close>

theorem checkHealth_total:
  "(\<forall>x. checkHealth w e \<noteq> Rejected x)
   \<and> ((checkHealth w e = Pending) =
        (\<exists>r. snd (fetchWithTimeout w (url e) TIMEOUT_MS) = Fulfilled r \<and> read_body r = Pending))
   \<and> ((\<forall>r. snd (fetchWithTimeout w (url e) TIMEOUT_MS) = Fulfilled r \<longrightarrow> read_body r \<noteq> Pending)
        \<longrightarrow> (\<exists>h. checkHealth w e = Fulfilled h))
   \<and> (\<forall>x. snd (fetchWithTimeout w (url e) TIMEOUT_MS) = Rejected x \<longrightarrow>
         checkHealth w e = Fulfilled
           \<lparr>name = name e, url = url e, status = 0, healthy = False, latency = None,
            response = None, error = Some (message x), timestamp = stamp w\<rparr>)
   \<and> (\<forall>r x. snd (fetchWithTimeout w (url e) TIMEOUT_MS) = Fulfilled r \<and> read_body r = Rejected x
         \<longrightarrow> checkHealth w e = Fulfilled
           \<lparr>name = name e, url = url e, status = 0, healthy = False, latency = None,
            response = None, error = Some (message x), timestamp = stamp w\<rparr>)
   \<and> (net w (url e) = Silent \<longrightarrow>
         checkHealth w e = Fulfilled
           \<lparr>name = name e, url = url e, status = 0, healthy = False, latency = None,
            response = None, error = Some (message (abort_reason w)), timestamp = stamp w\<rparr>)
   \<and> (\<forall>x. checkAll eps ws \<noteq> Rejected x)
   \<and> ((\<forall>i<length eps. \<forall>r.
          snd (fetchWithTimeout (probe ws i) (url (eps ! i)) TIMEOUT_MS) = Fulfilled r
          \<longrightarrow> read_body r \<noteq> Pending)
        \<and> {0..<length eps} \<subseteq> set (settle_order ws)
      \<longrightarrow> (\<exists>rs. checkAll eps ws = Fulfilled rs \<and> length rs = length eps))
   \<and> (checkAll eps ws = Fulfilled rs \<and> k < length eps
        \<and> snd (fetchWithTimeout (probe ws k) (url (eps ! k)) TIMEOUT_MS) = Rejected y
      \<longrightarrow> rs ! k =
           \<lparr>name = name (eps ! k), url = url (eps ! k), status = 0, healthy = False,
            latency = None, response = None, error = Some (message y),
            timestamp = stamp (probe ws k)\<rparr>)"
proof (intro conjI allI impI)
  fix x show "checkHealth w e \<noteq> Rejected x" by (rule checkHealth_not_rejected)
next
  show "(checkHealth w e = Pending) =
        (\<exists>r. snd (fetchWithTimeout w (url e) TIMEOUT_MS) = Fulfilled r \<and> read_body r = Pending)"
    by (rule checkHealth_pending_iff)
next
  assume "\<forall>r. snd (fetchWithTimeout w (url e) TIMEOUT_MS) = Fulfilled r \<longrightarrow> read_body r \<noteq> Pending"
  then show "\<exists>h. checkHealth w e = Fulfilled h" by (rule checkHealth_returns)
next
  fix x assume "snd (fetchWithTimeout w (url e) TIMEOUT_MS) = Rejected x"
  then show "checkHealth w e = Fulfilled
           \<lparr>name = name e, url = url e, status = 0, healthy = False, latency = None,
            response = None, error = Some (message x), timestamp = stamp w\<rparr>"
    by (rule checkHealth_fetch_rejected)
next
  fix r x assume "snd (fetchWithTimeout w (url e) TIMEOUT_MS) = Fulfilled r \<and> read_body r = Rejected x"
  then show "checkHealth w e = Fulfilled
           \<lparr>name = name e, url = url e, status = 0, healthy = False, latency = None,
            response = None, error = Some (message x), timestamp = stamp w\<rparr>"
    by (simp add: checkHealth_body_rejected)
next
  assume "net w (url e) = Silent"
  then have "snd (fetchWithTimeout w (url e) TIMEOUT_MS) = Rejected (abort_reason w)"
    by (simp add: fetchWithTimeout_def)
  then show "checkHealth w e = Fulfilled
           \<lparr>name = name e, url = url e, status = 0, healthy = False, latency = None,
            response = None, error = Some (message (abort_reason w)), timestamp = stamp w\<rparr>"
    by (rule checkHealth_fetch_rejected)
next
  fix x show "checkAll eps ws \<noteq> Rejected x" by (rule checkAll_not_rejected)
next
  assume "(\<forall>i<length eps. \<forall>r.
          snd (fetchWithTimeout (probe ws i) (url (eps ! i)) TIMEOUT_MS) = Fulfilled r
          \<longrightarrow> read_body r \<noteq> Pending)
        \<and> {0..<length eps} \<subseteq> set (settle_order ws)"
  then show "\<exists>rs. checkAll eps ws = Fulfilled rs \<and> length rs = length eps"
    by (intro checkAll_returns) simp_all
next
  assume a: "checkAll eps ws = Fulfilled rs \<and> k < length eps
        \<and> snd (fetchWithTimeout (probe ws k) (url (eps ! k)) TIMEOUT_MS) = Rejected y"
  then have "checkHealth (probe ws k) (eps ! k) = Fulfilled (rs ! k)"
    using checkAll_sound[of eps ws rs] by simp
  moreover from a have "checkHealth (probe ws k) (eps ! k) = Fulfilled
           \<lparr>name = name (eps ! k), url = url (eps ! k), status = 0, healthy = False,
            latency = None, response = None, error = Some (message y),
            timestamp = stamp (probe ws k)\<rparr>"
    by (simp add: checkHealth_fetch_rejected)
  ultimately show "rs ! k =
           \<lparr>name = name (eps ! k), url = url (eps ! k), status = 0, healthy = False,
            latency = None, response = None, error = Some (message y),
            timestamp = stamp (probe ws k)\<rparr>"
    by simp
qed

theorem checkHealth_total_witness:
  "snd (fetchWithTimeout (world_of (Responds 120 truncated_response))
          (url (ENDPOINTS ! 1)) TIMEOUT_MS) = Fulfilled truncated_response
   \<and> read_body truncated_response = Rejected (JsError ''Unexpected end of JSON input'')
   \<and> checkHealth (world_of (Responds 120 truncated_response)) (ENDPOINTS ! 1)
       = Fulfilled (demo_failure ''Unexpected end of JSON input'')
   \<and> snd (fetchWithTimeout (world_of (Fails 35 (JsError ''connection refused'')))
              (url (ENDPOINTS ! 1)) TIMEOUT_MS) = Rejected (JsError ''connection refused'')
   \<and> checkHealth (world_of (Fails 35 (JsError ''connection refused''))) (ENDPOINTS ! 1)
       = Fulfilled (demo_failure ''connection refused'')
   \<and> checkHealth (world_of Silent) (ENDPOINTS ! 1)
       = Fulfilled (demo_failure ''The signal has been aborted'')
   \<and> (\<exists>rs. checkAll ENDPOINTS demo_world = Fulfilled rs \<and> length rs = length ENDPOINTS)"
proof -
  let ?t = "world_of (Responds 120 truncated_response)"
  let ?f = "world_of (Fails 35 (JsError ''connection refused''))"
  let ?e = "ENDPOINTS ! 1"
  have ft: "snd (fetchWithTimeout ?t (url ?e) TIMEOUT_MS) = Fulfilled truncated_response"
    by (simp add: fetchWithTimeout_def world_of_def in_time_def TIMEOUT_MS_def)
  have bt: "read_body truncated_response = Rejected (JsError ''Unexpected end of JSON input'')"
    by (simp add: read_body_def truncated_response_def)
  have ff: "snd (fetchWithTimeout ?f (url ?e) TIMEOUT_MS) = Rejected (JsError ''connection refused'')"
    by (simp add: fetchWithTimeout_def world_of_def in_time_def TIMEOUT_MS_def)
  have silent: "net (world_of Silent) (url ?e) = Silent"
    by (simp add: world_of_def)
  have bodies: "\<forall>i<length ENDPOINTS. \<forall>r.
          snd (fetchWithTimeout (probe demo_world i) (url (ENDPOINTS ! i)) TIMEOUT_MS) = Fulfilled r
          \<longrightarrow> read_body r \<noteq> Pending"
    by (auto simp add: fetchWithTimeout_def demo_world_def world_of_def in_time_def
        TIMEOUT_MS_def read_body_def ok_response_def unavailable_response_def)
  have fair: "{0..<length ENDPOINTS} \<subseteq> set (settle_order demo_world)"
    by (auto simp add: ENDPOINTS_def demo_world_def)
  from checkHealth_total[where w = ?t and e = ?e and eps = ENDPOINTS and ws = demo_world] ft bt
  have "checkHealth ?t ?e = Fulfilled
          \<lparr>name = name ?e, url = url ?e, status = 0, healthy = False,
              latency = None, response = None, error = Some (message (JsError ''Unexpected end of JSON input'')),
              timestamp = stamp (?t)\<rparr>"
    by blast
  then have a: "checkHealth ?t ?e = Fulfilled (demo_failure ''Unexpected end of JSON input'')"
    by (simp add: ENDPOINTS_def world_of_def demo_failure_def)
  from checkHealth_total[where w = ?f and e = ?e and eps = ENDPOINTS and ws = demo_world] ff
  have "checkHealth ?f ?e = Fulfilled
          \<lparr>name = name ?e, url = url ?e, status = 0, healthy = False,
              latency = None, response = None, error = Some (message (JsError ''connection refused'')),
              timestamp = stamp (?f)\<rparr>"
    by blast
  then have b: "checkHealth ?f ?e = Fulfilled (demo_failure ''connection refused'')"
    by (simp add: ENDPOINTS_def world_of_def demo_failure_def)
  from checkHealth_total[where w = "world_of Silent" and e = ?e and eps = ENDPOINTS and ws = demo_world]
       silent
  have "checkHealth (world_of Silent) ?e = Fulfilled
          \<lparr>name = name ?e, url = url ?e, status = 0, healthy = False,
              latency = None, response = None, error = Some (message (abort_reason (world_of Silent))),
              timestamp = stamp (world_of Silent)\<rparr>"
    by blast
  then have c: "checkHealth (world_of Silent) ?e = Fulfilled (demo_failure ''The signal has been aborted'')"
    by (simp add: ENDPOINTS_def world_of_def demo_failure_def)
  from checkHealth_total[where w = ?t and e = ?e and eps = ENDPOINTS and ws = demo_world]
       bodies fair
  have d: "\<exists>rs. checkAll ENDPOINTS demo_world = Fulfilled rs \<and> length rs = length ENDPOINTS"
    by blast
  from ft bt a ff b c d show ?thesis by blast
qed

theorem stalled_body_counterexample:
  "snd (fetchWithTimeout (world_of (Responds 120 stalled_response))
          (url (ENDPOINTS ! 1)) TIMEOUT_MS) = Fulfilled stalled_response
   \<and> fst (fetchWithTimeout (world_of (Responds 120 stalled_response))
          (url (ENDPOINTS ! 1)) TIMEOUT_MS) = False
   \<and> read_body stalled_response = Pending
   \<and> checkHealth (world_of (Responds 120 stalled_response)) (ENDPOINTS ! 1) = Pending
   \<and> checkAll ENDPOINTS
         (demo_world\<lparr>probe := (\<lambda>i. world_of (Responds 120 stalled_response))\<rparr>) = Pending"
  by (simp add: checkAll_def Promise_all_def world_defs)

subsection \<open>Timeouts\<close>

text \<open>
  C5. A request that is still in flight when the timeout has passed is aborted, and
  \<open>fetchWithTimeout\<close> rejects with the abort error, for every timeout. \<open>checkHealth\<close>
  uses the default timeout, which is 5000 ms, and the record of such a probe has
  \<open>status = 0\<close>, \<open>healthy = false\<close>, an \<open>error\<close>, and neither \<open>latency\<close> nor \<open>response\<close>.
\<close>

theorem timeout_gives_failure_record:
  "(exceeds_timeout (net w u) timeout \<longrightarrow>
      fetchWithTimeout w u timeout = (True, Rejected (abort_reason w)))
   \<and> (exceeds_timeout (net w' (url e)) TIMEOUT_MS \<longrightarrow>
      checkHealth w' e = Fulfilled
        \<lparr>name = name e, url = url e, status = 0, healthy = False, latency = None,
         response = None, error = Some (message (abort_reason w')), timestamp = stamp w'\<rparr>)
   \<and> TIMEOUT_MS = 5000"
proof (intro conjI impI)
  assume "exceeds_timeout (net w u) timeout"
  then show "fetchWithTimeout w u timeout = (True, Rejected (abort_reason w))"
    by (rule fetchWithTimeout_overdue)
next
  assume "exceeds_timeout (net w' (url e)) TIMEOUT_MS"
  then have "snd (fetchWithTimeout w' (url e) TIMEOUT_MS) = Rejected (abort_reason w')"
    by (simp add: fetchWithTimeout_overdue)
  then show "checkHealth w' e = Fulfilled
        \<lparr>name = name e, url = url e, status = 0, healthy = False, latency = None,
         response = None, error = Some (message (abort_reason w')), timestamp = stamp w'\<rparr>"
    by (rule checkHealth_fetch_rejected)
next
  show "TIMEOUT_MS = 5000" by (simp add: TIMEOUT_MS_def)
qed

theorem timeout_gives_failure_record_witness:
  "exceeds_timeout (net (world_of (Responds 7000 ok_response)) ''u'') 5000
   \<and> fetchWithTimeout (world_of (Responds 7000 ok_response)) ''u'' 5000
       = (True, Rejected (JsError ''The signal has been aborted''))
   \<and> exceeds_timeout (net (world_of Silent) (url (ENDPOINTS ! 1))) TIMEOUT_MS
   \<and> checkHealth (world_of Silent) (ENDPOINTS ! 1)
       = Fulfilled (demo_failure ''The signal has been aborted'')"
  using timeout_gives_failure_record
    [of "world_of (Responds 7000 ok_response)" "''u''" 5000 "world_of Silent" "ENDPOINTS ! 1"]
  by (simp add: world_of_def ENDPOINTS_def demo_failure_def TIMEOUT_MS_def)

subsection \<open>A body that cannot be read\<close>

text \<open>
  C6, as the code has it. When the fetch delivers a response and the body read throws,
  the record is the failure literal with the message of the thrown error: the same
  literal as after a rejected fetch. A record has an \<open>error\<close> only in these two cases, and
  then \<open>status = 0\<close>; a record without \<open>error\<close> carries the status of the response.

  The second half of the claim, that \<open>status = 0\<close> occurs only when no response was
  received, fails: a response with status 200 whose body does not parse gives
  \<open>status = 0\<close>; the counterexample after the theorem evaluates one.
\<close>

theorem body_failure_gives_failure_record:
  "(snd (fetchWithTimeout w (url e) TIMEOUT_MS) = Fulfilled r \<and> read_body r = Rejected x
    \<longrightarrow> checkHealth w e = Fulfilled
          \<lparr>name = name e, url = url e, status = 0, healthy = False, latency = None,
           response = None, error = Some (message x), timestamp = stamp w\<rparr>)
   \<and> (snd (fetchWithTimeout w' (url e') TIMEOUT_MS) = Rejected x'
    \<longrightarrow> checkHealth w' e' = Fulfilled
          \<lparr>name = name e', url = url e', status = 0, healthy = False, latency = None,
           response = None, error = Some (message x'), timestamp = stamp w'\<rparr>)
   \<and> (checkHealth w2 e2 = Fulfilled h2 \<and> error h2 \<noteq> None
    \<longrightarrow> status h2 = 0
        \<and> ((\<exists>y. snd (fetchWithTimeout w2 (url e2) TIMEOUT_MS) = Rejected y)
           \<or> (\<exists>r2 y. snd (fetchWithTimeout w2 (url e2) TIMEOUT_MS) = Fulfilled r2
                 \<and> read_body r2 = Rejected y)))
   \<and> (checkHealth w3 e3 = Fulfilled h3 \<and> error h3 = None
    \<longrightarrow> (\<exists>r3. snd (fetchWithTimeout w3 (url e3) TIMEOUT_MS) = Fulfilled r3
            \<and> status h3 = http_status r3))"
proof (intro conjI impI)
  assume "snd (fetchWithTimeout w (url e) TIMEOUT_MS) = Fulfilled r \<and> read_body r = Rejected x"
  then show "checkHealth w e = Fulfilled
          \<lparr>name = name e, url = url e, status = 0, healthy = False, latency = None,
           response = None, error = Some (message x), timestamp = stamp w\<rparr>"
    by (simp add: checkHealth_body_rejected)
next
  assume "snd (fetchWithTimeout w' (url e') TIMEOUT_MS) = Rejected x'"
  then show "checkHealth w' e' = Fulfilled
          \<lparr>name = name e', url = url e', status = 0, healthy = False, latency = None,
           response = None, error = Some (message x'), timestamp = stamp w'\<rparr>"
    by (rule checkHealth_fetch_rejected)
next
  assume a: "checkHealth w2 e2 = Fulfilled h2 \<and> error h2 \<noteq> None"
  then have "checkHealth w2 e2 = Fulfilled h2" by simp
  then show "status h2 = 0" using a by (cases rule: checkHealth_cases) simp_all
next
  assume a: "checkHealth w2 e2 = Fulfilled h2 \<and> error h2 \<noteq> None"
  then have "checkHealth w2 e2 = Fulfilled h2" by simp
  then show "(\<exists>y. snd (fetchWithTimeout w2 (url e2) TIMEOUT_MS) = Rejected y)
           \<or> (\<exists>r2 y. snd (fetchWithTimeout w2 (url e2) TIMEOUT_MS) = Fulfilled r2
                 \<and> read_body r2 = Rejected y)"
    using a by (cases rule: checkHealth_cases) auto
next
  assume a: "checkHealth w3 e3 = Fulfilled h3 \<and> error h3 = None"
  then have "checkHealth w3 e3 = Fulfilled h3" by simp
  then show "\<exists>r3. snd (fetchWithTimeout w3 (url e3) TIMEOUT_MS) = Fulfilled r3
            \<and> status h3 = http_status r3"
    using a by (cases rule: checkHealth_cases) simp_all
qed

theorem body_failure_gives_failure_record_witness:
  "snd (fetchWithTimeout (world_of (Responds 120 truncated_response)) (url (ENDPOINTS ! 1)) TIMEOUT_MS)
     = Fulfilled truncated_response
   \<and> read_body truncated_response = Rejected (JsError ''Unexpected end of JSON input'')
   \<and> checkHealth (world_of (Responds 120 truncated_response)) (ENDPOINTS ! 1)
       = Fulfilled (demo_failure ''Unexpected end of JSON input'')
   \<and> status (demo_failure ''Unexpected end of JSON input'') = 0"
proof -
  have f: "snd (fetchWithTimeout (world_of (Responds 120 truncated_response)) (url (ENDPOINTS ! 1)) TIMEOUT_MS)
     = Fulfilled truncated_response"
    by (simp add: fetchWithTimeout_def world_of_def in_time_def TIMEOUT_MS_def)
  have b: "read_body truncated_response = Rejected (JsError ''Unexpected end of JSON input'')"
    by (simp add: read_body_def truncated_response_def)
  have lit: "\<lparr>name = name (ENDPOINTS ! 1), url = url (ENDPOINTS ! 1), status = 0, healthy = False,
              latency = None, response = None,
              error = Some (message (JsError ''Unexpected end of JSON input'')),
              timestamp = stamp (world_of (Responds 120 truncated_response))\<rparr>
             = demo_failure ''Unexpected end of JSON input''"
    by (simp add: ENDPOINTS_def world_of_def demo_failure_def)
  have e: "error (demo_failure ''Unexpected end of JSON input'') \<noteq> None"
    by (simp add: demo_failure_def)
  from body_failure_gives_failure_record
         [of "world_of (Responds 120 truncated_response)" "ENDPOINTS ! 1" truncated_response
             "JsError ''Unexpected end of JSON input''"
             "world_of (Fails 35 (JsError ''connection refused''))" "ENDPOINTS ! 1"
             "JsError ''connection refused''"
             "world_of (Responds 120 truncated_response)" "ENDPOINTS ! 1"
             "demo_failure ''Unexpected end of JSON input''"
             "probe demo_world 0" "ENDPOINTS ! 0" gemini_record]
       f b
  have c: "checkHealth (world_of (Responds 120 truncated_response)) (ENDPOINTS ! 1)
       = Fulfilled (demo_failure ''Unexpected end of JSON input'')"
    unfolding lit by blast
  from body_failure_gives_failure_record
         [of "world_of (Responds 120 truncated_response)" "ENDPOINTS ! 1" truncated_response
             "JsError ''Unexpected end of JSON input''"
             "world_of (Fails 35 (JsError ''connection refused''))" "ENDPOINTS ! 1"
             "JsError ''connection refused''"
             "world_of (Responds 120 truncated_response)" "ENDPOINTS ! 1"
             "demo_failure ''Unexpected end of JSON input''"
             "probe demo_world 0" "ENDPOINTS ! 0" gemini_record]
       c e
  have "status (demo_failure ''Unexpected end of JSON input'') = 0"
    by blast
  with f b c show ?thesis by blast
qed

theorem status_zero_counterexample:
  "snd (fetchWithTimeout (world_of (Responds 120 truncated_response)) (url (ENDPOINTS ! 1)) TIMEOUT_MS)
     = Fulfilled truncated_response
   \<and> http_status truncated_response = 200
   \<and> checkHealth (world_of (Responds 120 truncated_response)) (ENDPOINTS ! 1)
       = Fulfilled (demo_failure ''Unexpected end of JSON input'')
   \<and> status (demo_failure ''Unexpected end of JSON input'') = 0"
  by (simp add: world_defs)

subsection \<open>Decimal numerals and the routes of the handler\<close>

text \<open>
  \<open>show_nat\<close> writes a non-empty string of digits that \<open>parseInt\<close> reads back, so the path
  \<open>/check/i\<close> of a natural number \<open>i\<close> matches the pattern with index \<open>i\<close>; the numeral of
  a negative number starts with a minus sign and does not match.
\<close>

lemma digit_nth:
  assumes "d < 10"
  shows "is_digit (''0123456789'' ! d) \<and> digit_val (''0123456789'' ! d) = d"
proof -
  from assms have "d \<in> {0, 1, 2, 3, 4, 5, 6, 7, 8, 9}" by auto
  then show ?thesis
    by (auto simp: is_digit_def digit_val_def)
qed

lemma show_nat_digits: "show_nat n \<noteq> [] \<and> list_all is_digit (show_nat n)"
proof (induction n rule: show_nat.induct)
  case (1 n)
  show ?case
  proof (cases "n < 10")
    case True
    then show ?thesis by (simp add: show_nat.simps[of n] digit_nth)
  next
    case False
    with 1 show ?thesis by (simp add: show_nat.simps[of n] digit_nth)
  qed
qed

lemma parseInt_snoc: "parseInt (ds @ [c]) = 10 * parseInt ds + digit_val c"
  by (simp add: parseInt_def)

lemma parseInt_show_nat: "parseInt (show_nat n) = n"
proof (induction n rule: show_nat.induct)
  case (1 n)
  show ?case
  proof (cases "n < 10")
    case True
    then show ?thesis by (simp add: show_nat.simps[of n] parseInt_def digit_nth)
  next
    case False
    with 1 have "parseInt (show_nat (n div 10)) = n div 10" by simp
    with False show ?thesis
      by (simp add: show_nat.simps[of n] parseInt_snoc digit_nth)
  qed
qed

lemma match_check_digits:
  "ds \<noteq> [] \<Longrightarrow> list_all is_digit ds \<Longrightarrow> match_check (''/check/'' @ ds) = Some ds"
  by (simp add: match_check_def)

lemma match_check_no_digit:
  "\<not> is_digit c \<Longrightarrow> match_check (''/check/'' @ c # cs) = None"
  by (simp add: match_check_def)

lemma handler_index:
  assumes "http_method req \<noteq> ''OPTIONS''" "pathname req = ''/check/'' @ ds" "ds \<noteq> []"
    "list_all is_digit ds"
  shows "handler eps w req s =
     (if parseInt ds < length eps then
        (case checkHealth (probe w (parseInt ds)) (eps ! parseInt ds) of
           Pending \<Rightarrow> (Pending, s)
         | Rejected e \<Rightarrow> (Rejected e, s)
         | Fulfilled result \<Rightarrow>
             (Fulfilled (respond 200 ''application/json'' (JsonOfRecord result)), s))
      else (Fulfilled (respond 404 ''text/plain'' (PlainText ''Not Found'')), s))"
proof -
  from assms(3) obtain c cs where "ds = c # cs" by (cases ds) auto
  with assms(2) have p: "pathname req \<noteq> ''/''" "pathname req \<noteq> ''/check''"
    "pathname req \<noteq> ''/last-check''" by simp_all
  have m: "match_check (pathname req) = Some ds"
    using assms(3,4) unfolding assms(2) by (rule match_check_digits)
  show ?thesis
    using assms(1) p m by (simp add: handler_def Let_def)
qed

lemma handler_no_match:
  assumes "http_method req \<noteq> ''OPTIONS''" "pathname req = ''/check/'' @ c # cs" "\<not> is_digit c"
  shows "handler eps w req s
           = (Fulfilled (respond 404 ''text/plain'' (PlainText ''Not Found'')), s)"
proof -
  from assms(2) have p: "pathname req \<noteq> ''/''" "pathname req \<noteq> ''/check''"
    "pathname req \<noteq> ''/last-check''" by simp_all
  have m: "match_check (pathname req) = None"
    using assms(3) unfolding assms(2) by (rule match_check_no_digit)
  show ?thesis
    using assms(1) p m by (simp add: handler_def)
qed

lemma show_int_negative: "i < 0 \<Longrightarrow> \<exists>cs. show_int i = CHR ''-'' # cs"
  by (simp add: show_int_def)

lemma not_digit_minus: "\<not> is_digit (CHR ''-'')"
  by (simp add: is_digit_def)

lemma match_check_not_check: "match_check p = Some ds \<Longrightarrow> p \<noteq> ''/check''"
  by (auto simp: match_check_def split: if_splits)

lemma handler_state:
  "snd (handler eps w req s) =
     (if http_method req \<noteq> ''OPTIONS'' \<and> pathname req = ''/check''
      then (case checkAll eps w of Fulfilled rs \<Rightarrow> s\<lparr>lastCheckResults := rs\<rparr> | _ \<Rightarrow> s)
      else s)"
  by (simp add: handler_def Let_def split: promise.splits option.splits)

lemma background_state:
  "snd (backgroundHealthCheck eps w s) =
     (case checkAll eps w of Fulfilled rs \<Rightarrow> s\<lparr>lastCheckResults := rs\<rparr> | _ \<Rightarrow> s)"
  by (simp add: backgroundHealthCheck_def split: promise.splits)

lemma handler_last_check:
  "http_method req \<noteq> ''OPTIONS'' \<Longrightarrow> pathname req = ''/last-check'' \<Longrightarrow>
   handler eps w req s =
     (Fulfilled \<lparr>resp_status = 200,
                 resp_headers = cors_headers @ [(''Content-Type'', ''application/json'')],
                 resp_body = JsonOfRecords (lastCheckResults s)\<rparr>, s)"
  by (simp add: handler_def respond_def)

lemma handler_check:
  "http_method req \<noteq> ''OPTIONS'' \<Longrightarrow> pathname req = ''/check'' \<Longrightarrow> checkAll eps w = Fulfilled rs \<Longrightarrow>
   handler eps w req s =
     (Fulfilled \<lparr>resp_status = 200,
                 resp_headers = cors_headers @ [(''Content-Type'', ''application/json'')],
                 resp_body = JsonOfRecords rs\<rparr>, s\<lparr>lastCheckResults := rs\<rparr>)"
  by (simp add: handler_def respond_def)

lemma handler_method:
  "http_method req \<noteq> ''OPTIONS'' \<Longrightarrow> m \<noteq> ''OPTIONS'' \<Longrightarrow>
   handler eps w (req\<lparr>http_method := m\<rparr>) s = handler eps w req s"
  by (simp add: handler_def)

lemma demo_batch: "checkAll ENDPOINTS demo_world = Fulfilled [gemini_record, demo_record]"
  by (simp add: checkAll_def Promise_all_def world_defs)

subsection \<open>Who writes the cache\<close>

text \<open>
  C7. The state after the handler is the state before it, except after a request for
  \<open>/check\<close> (of any method but \<open>OPTIONS\<close>) whose batch was fulfilled: then
  \<open>lastCheckResults\<close> is the batch's list of records, whatever it was before, and nothing
  else has changed. The state after \<open>backgroundHealthCheck\<close> is the same function of the
  batch. In particular requests for \<open>/last-check\<close> and for \<open>/check/{index}\<close> leave the state
  as it was.
\<close>

theorem cache_replaced_only_by_batches:
  "snd (handler eps w req s) =
     (if http_method req \<noteq> ''OPTIONS'' \<and> pathname req = ''/check''
      then (case checkAll eps w of Fulfilled rs \<Rightarrow> s\<lparr>lastCheckResults := rs\<rparr> | _ \<Rightarrow> s)
      else s)
   \<and> snd (backgroundHealthCheck eps w s) =
     (case checkAll eps w of Fulfilled rs \<Rightarrow> s\<lparr>lastCheckResults := rs\<rparr> | _ \<Rightarrow> s)
   \<and> (pathname req' = ''/last-check'' \<or> match_check (pathname req') \<noteq> None
      \<longrightarrow> snd (handler eps w' req' s') = s')"
proof (intro conjI impI)
  assume "pathname req' = ''/last-check'' \<or> match_check (pathname req') \<noteq> None"
  then have "pathname req' \<noteq> ''/check''"
    using match_check_not_check by auto
  then show "snd (handler eps w' req' s') = s'"
    by (simp add: handler_state)
qed (rule handler_state, rule background_state)

theorem cache_replaced_only_by_batches_witness:
  "snd (handler ENDPOINTS demo_world \<lparr>http_method = ''GET'', pathname = ''/check''\<rparr> initial_state)
     = initial_state\<lparr>lastCheckResults := [gemini_record, demo_record]\<rparr>
   \<and> snd (backgroundHealthCheck ENDPOINTS demo_world initial_state)
     = initial_state\<lparr>lastCheckResults := [gemini_record, demo_record]\<rparr>
   \<and> snd (handler ENDPOINTS demo_world \<lparr>http_method = ''GET'', pathname = ''/last-check''\<rparr>
            (initial_state\<lparr>lastCheckResults := [gemini_record]\<rparr>))
     = initial_state\<lparr>lastCheckResults := [gemini_record]\<rparr>
   \<and> snd (handler ENDPOINTS demo_world \<lparr>http_method = ''GET'', pathname = ''/check/1''\<rparr>
            (initial_state\<lparr>lastCheckResults := [gemini_record]\<rparr>))
     = initial_state\<lparr>lastCheckResults := [gemini_record]\<rparr>"
proof -
  have m: "match_check (pathname \<lparr>http_method = ''GET'', pathname = ''/check/1''\<rparr>) \<noteq> None"
    by (simp add: match_check_def is_digit_def)
  from cache_replaced_only_by_batches
         [where eps = ENDPOINTS and w = demo_world
            and req = "\<lparr>http_method = ''GET'', pathname = ''/check''\<rparr>" and s = initial_state
            and req' = "\<lparr>http_method = ''GET'', pathname = ''/last-check''\<rparr>" and w' = demo_world
            and s' = "initial_state\<lparr>lastCheckResults := [gemini_record]\<rparr>"]
       cache_replaced_only_by_batches
         [where eps = ENDPOINTS and w = demo_world
            and req = "\<lparr>http_method = ''GET'', pathname = ''/check''\<rparr>" and s = initial_state
            and req' = "\<lparr>http_method = ''GET'', pathname = ''/check/1''\<rparr>" and w' = demo_world
            and s' = "initial_state\<lparr>lastCheckResults := [gemini_record]\<rparr>"]
       m demo_batch
  show ?thesis
    by simp
qed

subsection \<open>\<open>/last-check\<close>\<close>

text \<open>
  C8. A request for \<open>/last-check\<close> is answered with status 200 and the JSON text of
  \<open>lastCheckResults\<close>, whatever the world does (no probe is consulted), and leaves the state
  as it was. In the initial state the answer is the empty array. After a \<open>/check\<close> or a
  background check whose batch was fulfilled with \<open>rs\<close> the answer is \<open>rs\<close>. A second request
  right after the first gets the same answer.
\<close>

theorem last_check_returns_cache:
  "(http_method req \<noteq> ''OPTIONS'' \<and> pathname req = ''/last-check''
    \<longrightarrow> handler eps w req s =
          (Fulfilled \<lparr>resp_status = 200,
                      resp_headers = cors_headers @ [(''Content-Type'', ''application/json'')],
                      resp_body = JsonOfRecords (lastCheckResults s)\<rparr>, s)
        \<and> handler eps w req initial_state =
          (Fulfilled \<lparr>resp_status = 200,
                      resp_headers = cors_headers @ [(''Content-Type'', ''application/json'')],
                      resp_body = JsonOfRecords []\<rparr>, initial_state)
        \<and> handler eps w' req (snd (handler eps w req s)) = handler eps w req s)
   \<and> (http_method req \<noteq> ''OPTIONS'' \<and> pathname req = ''/last-check''
      \<and> http_method creq \<noteq> ''OPTIONS'' \<and> pathname creq = ''/check''
      \<and> checkAll eps cw = Fulfilled rs
    \<longrightarrow> fst (handler eps w req (snd (handler eps cw creq s))) =
          Fulfilled \<lparr>resp_status = 200,
                     resp_headers = cors_headers @ [(''Content-Type'', ''application/json'')],
                     resp_body = JsonOfRecords rs\<rparr>
        \<and> fst (handler eps w req (snd (backgroundHealthCheck eps cw s))) =
          Fulfilled \<lparr>resp_status = 200,
                     resp_headers = cors_headers @ [(''Content-Type'', ''application/json'')],
                     resp_body = JsonOfRecords rs\<rparr>)"
  by (simp add: handler_last_check handler_check background_state initial_state_def)

theorem last_check_returns_cache_witness:
  "handler ENDPOINTS demo_world \<lparr>http_method = ''GET'', pathname = ''/last-check''\<rparr> initial_state
     = (Fulfilled \<lparr>resp_status = 200,
                   resp_headers = cors_headers @ [(''Content-Type'', ''application/json'')],
                   resp_body = JsonOfRecords []\<rparr>, initial_state)
   \<and> fst (handler ENDPOINTS demo_world \<lparr>http_method = ''GET'', pathname = ''/last-check''\<rparr>
         (snd (handler ENDPOINTS demo_world \<lparr>http_method = ''GET'', pathname = ''/check''\<rparr>
                 initial_state)))
     = Fulfilled \<lparr>resp_status = 200,
                  resp_headers = cors_headers @ [(''Content-Type'', ''application/json'')],
                  resp_body = JsonOfRecords [gemini_record, demo_record]\<rparr>
   \<and> fst (handler ENDPOINTS demo_world \<lparr>http_method = ''GET'', pathname = ''/last-check''\<rparr>
         (snd (backgroundHealthCheck ENDPOINTS demo_world initial_state)))
     = Fulfilled \<lparr>resp_status = 200,
                  resp_headers = cors_headers @ [(''Content-Type'', ''application/json'')],
                  resp_body = JsonOfRecords [gemini_record, demo_record]\<rparr>"
proof -
  have r: "http_method \<lparr>http_method = ''GET'', pathname = ''/last-check''\<rparr> \<noteq> ''OPTIONS''
           \<and> pathname \<lparr>http_method = ''GET'', pathname = ''/last-check''\<rparr> = ''/last-check''"
    and c: "http_method \<lparr>http_method = ''GET'', pathname = ''/check''\<rparr> \<noteq> ''OPTIONS''
           \<and> pathname \<lparr>http_method = ''GET'', pathname = ''/check''\<rparr> = ''/check''"
    by simp_all
  from last_check_returns_cache
         [where eps = ENDPOINTS and w = demo_world and w' = demo_world and cw = demo_world
            and req = "\<lparr>http_method = ''GET'', pathname = ''/last-check''\<rparr>"
            and creq = "\<lparr>http_method = ''GET'', pathname = ''/check''\<rparr>"
            and s = initial_state and rs = "[gemini_record, demo_record]"]
       r c demo_batch
  show ?thesis
    by blast
qed

subsection \<open>\<open>/check/{index}\<close>\<close>

text \<open>
  C9. For an integer \<open>i\<close> outside \<open>[0, n)\<close>, where \<open>n\<close> is the length of the endpoint table,
  the request for \<open>/check/i\<close> is answered with status 404 and the text \<open>Not Found\<close>. For
  \<open>k < n\<close> it is answered with status 200 and the JSON text of the record that
  \<open>checkHealth\<close> produces for the endpoint at position \<open>k\<close>, which is the record at position
  \<open>k\<close> of a batch in the same world. The state is unchanged in both cases.
\<close>

theorem check_index_route:
  "(m \<noteq> ''OPTIONS'' \<and> (i < 0 \<or> int (length eps) \<le> i)
    \<longrightarrow> handler eps w \<lparr>http_method = m, pathname = ''/check/'' @ show_int i\<rparr> s
        = (Fulfilled \<lparr>resp_status = 404,
                      resp_headers = cors_headers @ [(''Content-Type'', ''text/plain'')],
                      resp_body = PlainText ''Not Found''\<rparr>, s))
   \<and> (m' \<noteq> ''OPTIONS'' \<and> k < length eps' \<and> checkHealth (probe w' k) (eps' ! k) = Fulfilled h
    \<longrightarrow> handler eps' w' \<lparr>http_method = m', pathname = ''/check/'' @ show_int (int k)\<rparr> s'
        = (Fulfilled \<lparr>resp_status = 200,
                      resp_headers = cors_headers @ [(''Content-Type'', ''application/json'')],
                      resp_body = JsonOfRecord h\<rparr>, s'))
   \<and> (k < length eps' \<and> checkHealth (probe w' k) (eps' ! k) = Fulfilled h
      \<and> checkAll eps' w' = Fulfilled rs
    \<longrightarrow> rs ! k = h)"
proof (intro conjI impI)
  assume a: "m \<noteq> ''OPTIONS'' \<and> (i < 0 \<or> int (length eps) \<le> i)"
  let ?req = "\<lparr>http_method = m, pathname = ''/check/'' @ show_int i\<rparr>"
  have "handler eps w ?req s = (Fulfilled (respond 404 ''text/plain'' (PlainText ''Not Found'')), s)"
  proof (cases "i < 0")
    case True
    then obtain cs where cs: "show_int i = CHR ''-'' # cs" using show_int_negative by blast
    show ?thesis
      by (rule handler_no_match[where c = "CHR ''-''" and cs = cs])
         (use a cs in \<open>simp_all add: not_digit_minus\<close>)
  next
    case False
    with a have n: "show_int i = show_nat (nat i)" "\<not> nat i < length eps"
      by (auto simp add: show_int_def)
    have "handler eps w ?req s =
     (if parseInt (show_nat (nat i)) < length eps then
        (case checkHealth (probe w (parseInt (show_nat (nat i)))) (eps ! parseInt (show_nat (nat i))) of
           Pending \<Rightarrow> (Pending, s)
         | Rejected e \<Rightarrow> (Rejected e, s)
         | Fulfilled result \<Rightarrow>
             (Fulfilled (respond 200 ''application/json'' (JsonOfRecord result)), s))
      else (Fulfilled (respond 404 ''text/plain'' (PlainText ''Not Found'')), s))"
      by (rule handler_index) (use a n in \<open>simp_all add: show_nat_digits\<close>)
    with n show ?thesis by (simp add: parseInt_show_nat)
  qed
  then show "handler eps w ?req s
        = (Fulfilled \<lparr>resp_status = 404,
                      resp_headers = cors_headers @ [(''Content-Type'', ''text/plain'')],
                      resp_body = PlainText ''Not Found''\<rparr>, s)"
    by (simp add: respond_def)
next
  assume a: "m' \<noteq> ''OPTIONS'' \<and> k < length eps' \<and> checkHealth (probe w' k) (eps' ! k) = Fulfilled h"
  let ?req = "\<lparr>http_method = m', pathname = ''/check/'' @ show_int (int k)\<rparr>"
  have n: "show_int (int k) = show_nat k" by (simp add: show_int_def)
  have "handler eps' w' ?req s' =
     (if parseInt (show_nat k) < length eps' then
        (case checkHealth (probe w' (parseInt (show_nat k))) (eps' ! parseInt (show_nat k)) of
           Pending \<Rightarrow> (Pending, s')
         | Rejected e \<Rightarrow> (Rejected e, s')
         | Fulfilled result \<Rightarrow>
             (Fulfilled (respond 200 ''application/json'' (JsonOfRecord result)), s'))
      else (Fulfilled (respond 404 ''text/plain'' (PlainText ''Not Found'')), s'))"
    by (rule handler_index) (use a n in \<open>simp_all add: show_nat_digits\<close>)
  with a show "handler eps' w' ?req s'
        = (Fulfilled \<lparr>resp_status = 200,
                      resp_headers = cors_headers @ [(''Content-Type'', ''application/json'')],
                      resp_body = JsonOfRecord h\<rparr>, s')"
    by (simp add: parseInt_show_nat respond_def)
next
  assume a: "k < length eps' \<and> checkHealth (probe w' k) (eps' ! k) = Fulfilled h
      \<and> checkAll eps' w' = Fulfilled rs"
  with checkAll_sound[of eps' w' rs] show "rs ! k = h" by auto
qed

theorem check_index_route_witness:
  "handler ENDPOINTS demo_world \<lparr>http_method = ''GET'', pathname = ''/check/2''\<rparr> initial_state
     = (Fulfilled \<lparr>resp_status = 404,
                   resp_headers = cors_headers @ [(''Content-Type'', ''text/plain'')],
                   resp_body = PlainText ''Not Found''\<rparr>, initial_state)
   \<and> handler ENDPOINTS demo_world \<lparr>http_method = ''GET'', pathname = ''/check/1''\<rparr> initial_state
     = (Fulfilled \<lparr>resp_status = 200,
                   resp_headers = cors_headers @ [(''Content-Type'', ''application/json'')],
                   resp_body = JsonOfRecord demo_record\<rparr>, initial_state)
   \<and> checkAll ENDPOINTS demo_world = Fulfilled [gemini_record, demo_record]
   \<and> [gemini_record, demo_record] ! 1 = demo_record"
proof -
  have p2: "''/check/'' @ show_int 2 = ''/check/2''"
    and p1: "''/check/'' @ show_int (int 1) = ''/check/1''"
    by (simp_all add: show_int_def show_nat.simps)
  have out: "''GET'' \<noteq> ''OPTIONS'' \<and> ((2::int) < 0 \<or> int (length ENDPOINTS) \<le> 2)"
    by (simp add: ENDPOINTS_def)
  have inside: "''GET'' \<noteq> ''OPTIONS'' \<and> 1 < length ENDPOINTS
      \<and> checkHealth (probe demo_world 1) (ENDPOINTS ! 1) = Fulfilled demo_record"
    by (simp add: world_defs)
  have batch: "checkAll ENDPOINTS demo_world = Fulfilled [gemini_record, demo_record]"
    by (simp add: checkAll_def Promise_all_def world_defs)
  from check_index_route
         [where m = "''GET''" and i = 2 and eps = ENDPOINTS and w = demo_world
            and s = initial_state and m' = "''GET''" and k = 1 and eps' = ENDPOINTS
            and w' = demo_world and h = demo_record and s' = initial_state
            and rs = "[gemini_record, demo_record]"]
       out inside batch
  show ?thesis
    unfolding p1 p2 by blast
qed

subsection \<open>The method of a request\<close>

text \<open>
  C10. The handler reads the method only to compare it with \<open>OPTIONS\<close>: a request of any
  other method has the result of the \<open>GET\<close> request for the same path. So a \<open>POST\<close> or
  \<open>DELETE\<close> for \<open>/check\<close> runs the batch, answers 200 with its records and overwrites the
  cache. An \<open>OPTIONS\<close> request for any path is answered 200 with no body.
\<close>

theorem dispatch_ignores_method:
  "(http_method req \<noteq> ''OPTIONS''
    \<longrightarrow> handler eps w req s = handler eps w (req\<lparr>http_method := ''GET''\<rparr>) s)
   \<and> (m \<noteq> ''OPTIONS'' \<and> checkAll eps w = Fulfilled rs
    \<longrightarrow> handler eps w \<lparr>http_method = m, pathname = ''/check''\<rparr> s =
          (Fulfilled \<lparr>resp_status = 200,
                      resp_headers = cors_headers @ [(''Content-Type'', ''application/json'')],
                      resp_body = JsonOfRecords rs\<rparr>, s\<lparr>lastCheckResults := rs\<rparr>))
   \<and> handler eps w \<lparr>http_method = ''OPTIONS'', pathname = p\<rparr> s =
       (Fulfilled \<lparr>resp_status = 200, resp_headers = cors_headers, resp_body = NoBody\<rparr>, s)"
proof (intro conjI impI)
  assume "http_method req \<noteq> ''OPTIONS''"
  then show "handler eps w req s = handler eps w (req\<lparr>http_method := ''GET''\<rparr>) s"
    by (simp add: handler_method)
next
  assume "m \<noteq> ''OPTIONS'' \<and> checkAll eps w = Fulfilled rs"
  then show "handler eps w \<lparr>http_method = m, pathname = ''/check''\<rparr> s =
          (Fulfilled \<lparr>resp_status = 200,
                      resp_headers = cors_headers @ [(''Content-Type'', ''application/json'')],
                      resp_body = JsonOfRecords rs\<rparr>, s\<lparr>lastCheckResults := rs\<rparr>)"
    by (simp add: handler_check)
next
  show "handler eps w \<lparr>http_method = ''OPTIONS'', pathname = p\<rparr> s =
       (Fulfilled \<lparr>resp_status = 200, resp_headers = cors_headers, resp_body = NoBody\<rparr>, s)"
    by (simp add: handler_def)
qed

theorem dispatch_ignores_method_witness:
  "handler ENDPOINTS demo_world \<lparr>http_method = ''POST'', pathname = ''/check''\<rparr> initial_state
     = handler ENDPOINTS demo_world \<lparr>http_method = ''GET'', pathname = ''/check''\<rparr> initial_state
   \<and> handler ENDPOINTS demo_world \<lparr>http_method = ''DELETE'', pathname = ''/check''\<rparr> initial_state
     = (Fulfilled \<lparr>resp_status = 200,
                   resp_headers = cors_headers @ [(''Content-Type'', ''application/json'')],
                   resp_body = JsonOfRecords [gemini_record, demo_record]\<rparr>,
        initial_state\<lparr>lastCheckResults := [gemini_record, demo_record]\<rparr>)"
  using dispatch_ignores_method
         [where eps = ENDPOINTS and w = demo_world and s = initial_state
            and req = "\<lparr>http_method = ''POST'', pathname = ''/check''\<rparr>"
            and m = "''DELETE''" and rs = "[gemini_record, demo_record]"]
       demo_batch
  by simp

end
